theory Spec2Isabelle
  imports Complex_Main "HOL-Library.Word"
begin

section \<open>WGSL values and built-in functions\<close>

text \<open>
  The render programs are WGSL shaders. Their scalar type \<open>f32\<close> is modelled by \<open>real\<close>:
  addition, subtraction, multiplication and division are exact. The conversion of an
  unsigned integer rounds to a 24-bit significand, as binary32 does, and a quotient whose
  divisor can be zero is an \<open>option\<close>. The unsigned type \<open>u32\<close> is a 32-bit word, so that
  \<open>-\<close> and \<open>+\<close> wrap around as they do in WGSL. Vectors are tuples of their components.
\<close>

type_synonym f32 = real
type_synonym u32 = "32 word"
type_synonym vec2 = "f32 \<times> f32"
type_synonym vec3 = "f32 \<times> f32 \<times> f32"
type_synonym vec4 = "f32 \<times> f32 \<times> f32 \<times> f32"

text \<open>
  The conversion \<open>f32(e)\<close> of an unsigned integer. A binary32 value has a significand of
  24 bits, so an integer from \<open>2 ^ 24\<close> on is rounded to the nearest multiple of the spacing
  of its binade (\<open>f32_ulp\<close>), a tie going to the even significand. Below \<open>2 ^ 24\<close> the
  conversion is exact.
\<close>

definition f32_ulp :: "nat \<Rightarrow> nat" where
  "f32_ulp n =
     (if n < 2 ^ 24 then 1 else if n < 2 ^ 25 then 2 else if n < 2 ^ 26 then 4
      else if n < 2 ^ 27 then 8 else if n < 2 ^ 28 then 16 else if n < 2 ^ 29 then 32
      else if n < 2 ^ 30 then 64 else if n < 2 ^ 31 then 128 else 256)"

definition f32_of_u32 :: "u32 \<Rightarrow> f32" where
  "f32_of_u32 w =
     (let n = unat w;
          u = f32_ulp n;
          q = n div u;
          r = n mod u
      in real (if 2 * r < u then q * u
               else if u < 2 * r then (q + 1) * u
               else if even q then q * u else (q + 1) * u))"

text \<open>
  The quotient \<open>e1 / e2\<close> where the divisor can be zero: the source then computes an
  infinity or a NaN, which is no real number, and the quotient has no value here.
\<close>

definition fdiv :: "f32 \<Rightarrow> f32 \<Rightarrow> f32 option" where
  "fdiv e1 e2 = (if e2 = 0 then None else Some (e1 / e2))"

text \<open>Component-wise arithmetic on \<open>vec2<f32>\<close>; a scalar operand is applied to every component.\<close>

fun add2 :: "vec2 \<Rightarrow> vec2 \<Rightarrow> vec2" where
  "add2 (ax, ay) (bx, by) = (ax + bx, ay + by)"

fun sub2 :: "vec2 \<Rightarrow> vec2 \<Rightarrow> vec2" where
  "sub2 (ax, ay) (bx, by) = (ax - bx, ay - by)"

fun mul2 :: "vec2 \<Rightarrow> vec2 \<Rightarrow> vec2" where
  "mul2 (ax, ay) (bx, by) = (ax * bx, ay * by)"

fun div2 :: "vec2 \<Rightarrow> vec2 \<Rightarrow> vec2" where
  "div2 (ax, ay) (bx, by) = (ax / bx, ay / by)"

fun adds2 :: "vec2 \<Rightarrow> f32 \<Rightarrow> vec2" where
  "adds2 (ax, ay) s = (ax + s, ay + s)"

fun subs2 :: "vec2 \<Rightarrow> f32 \<Rightarrow> vec2" where
  "subs2 (ax, ay) s = (ax - s, ay - s)"

fun scale2 :: "vec2 \<Rightarrow> f32 \<Rightarrow> vec2" where
  "scale2 (ax, ay) s = (ax * s, ay * s)"

fun divs2 :: "vec2 \<Rightarrow> f32 \<Rightarrow> vec2" where
  "divs2 (ax, ay) s = (ax / s, ay / s)"

fun dot2 :: "vec2 \<Rightarrow> vec2 \<Rightarrow> f32" where
  "dot2 (ax, ay) (bx, by) = ax * bx + ay * by"

definition length2 :: "vec2 \<Rightarrow> f32" where
  "length2 v = sqrt (dot2 v v)"

definition distance2 :: "vec2 \<Rightarrow> vec2 \<Rightarrow> f32" where
  "distance2 a b = length2 (sub2 a b)"

text \<open>Component-wise arithmetic on \<open>vec3<f32>\<close>.\<close>

fun add3 :: "vec3 \<Rightarrow> vec3 \<Rightarrow> vec3" where
  "add3 (ax, ay, az) (bx, by, bz) = (ax + bx, ay + by, az + bz)"

fun sub3 :: "vec3 \<Rightarrow> vec3 \<Rightarrow> vec3" where
  "sub3 (ax, ay, az) (bx, by, bz) = (ax - bx, ay - by, az - bz)"

fun mul3 :: "vec3 \<Rightarrow> vec3 \<Rightarrow> vec3" where
  "mul3 (ax, ay, az) (bx, by, bz) = (ax * bx, ay * by, az * bz)"

fun adds3 :: "vec3 \<Rightarrow> f32 \<Rightarrow> vec3" where
  "adds3 (ax, ay, az) s = (ax + s, ay + s, az + s)"

fun subs3 :: "vec3 \<Rightarrow> f32 \<Rightarrow> vec3" where
  "subs3 (ax, ay, az) s = (ax - s, ay - s, az - s)"

fun scale3 :: "vec3 \<Rightarrow> f32 \<Rightarrow> vec3" where
  "scale3 (ax, ay, az) s = (ax * s, ay * s, az * s)"

fun dot3 :: "vec3 \<Rightarrow> vec3 \<Rightarrow> f32" where
  "dot3 (ax, ay, az) (bx, by, bz) = ax * bx + ay * by + az * bz"

text \<open>
  The scalar built-ins, as the WGSL specification defines them:
  \<open>clamp(e, low, high) = min(max(e, low), high)\<close>,
  \<open>mix(e1, e2, e3) = e1 * (1 - e3) + e2 * e3\<close>, and
  \<open>smoothstep(low, high, x) = t * t * (3 - 2 * t)\<close> with
  \<open>t = clamp((x - low) / (high - low), 0, 1)\<close>.
\<close>

definition clamp :: "f32 \<Rightarrow> f32 \<Rightarrow> f32 \<Rightarrow> f32" where
  "clamp e low high = min (max e low) high"

definition mix :: "f32 \<Rightarrow> f32 \<Rightarrow> f32 \<Rightarrow> f32" where
  "mix e1 e2 e3 = e1 * (1 - e3) + e2 * e3"

definition smoothstep :: "f32 \<Rightarrow> f32 \<Rightarrow> f32 \<Rightarrow> f32" where
  "smoothstep low high x =
     (let t = clamp ((x - low) / (high - low)) 0 1 in t * t * (3 - 2 * t))"

definition floor_f32 :: "f32 \<Rightarrow> f32" where
  "floor_f32 x = of_int \<lfloor>x\<rfloor>"

definition fract :: "f32 \<Rightarrow> f32" where
  "fract x = x - floor_f32 x"

fun mix3 :: "vec3 \<Rightarrow> vec3 \<Rightarrow> f32 \<Rightarrow> vec3" where
  "mix3 (ax, ay, az) (bx, by, bz) t = (mix ax bx t, mix ay by t, mix az bz t)"

text \<open>
  \<open>arrayLength\<close> of a runtime-sized storage array is a \<open>u32\<close>. A load whose index is not
  below the length of the buffer is out of bounds; WGSL lets such a load return the zero
  value, which is what \<open>load\<close> returns then.
\<close>

definition arrayLength :: "'a list \<Rightarrow> u32" where
  "arrayLength xs = of_nat (length xs)"

definition load :: "f32 list \<Rightarrow> u32 \<Rightarrow> f32" where
  "load buf i = (if unat i < length buf then buf ! unat i else 0)"


section \<open>Full-screen stage\<close>

text \<open>
  \<open>src/eeg_shader.wgsl\<close>, \<open>vs_main\<close>: the explicit oversized triangle. The index selects
  one of the three constant positions of the local array \<open>pos\<close>; an index outside the array
  has no position here.
\<close>

record VertexOutput =
  clip_position :: vec4
  frag_coord :: vec2

definition sdf_vs_main :: "u32 \<Rightarrow> VertexOutput option" where
  "sdf_vs_main in_vertex_index =
     (let pos = [(-1, -1), (3, -1), (-1, 3)] :: vec2 list
      in if unat in_vertex_index < length pos
         then (let p = pos ! unat in_vertex_index
               in Some \<lparr>clip_position = (fst p, snd p, 0, 1), frag_coord = p\<rparr>)
         else None)"

text \<open>
  \<open>src/shader.wgsl\<close> and the organic-noise shader, \<open>vs_main\<close>: the bit-parity
  construction. Both files hold the same function.
\<close>

definition glow_vs_main :: "u32 \<Rightarrow> vec4" where
  "glow_vs_main in_vertex_index =
     (let x = f32_of_u32 (in_vertex_index div 2) * 4 - 1;
          y = f32_of_u32 (in_vertex_index mod 2) * 4 - 1
      in (x, y, 0, 1))"

definition noise_vs_main :: "u32 \<Rightarrow> vec4" where
  "noise_vs_main in_vertex_index =
     (let x = f32_of_u32 (in_vertex_index div 2) * 4 - 1;
          y = f32_of_u32 (in_vertex_index mod 2) * 4 - 1
      in (x, y, 0, 1))"

text \<open>
  Membership of a point in the closed triangle \<open>a b c\<close>, by the signs of the three edge
  functions. \<open>edge a b c\<close> is twice the signed area of the triangle: its sign is the
  orientation, and a triangle of area zero has no points.
\<close>

fun edge :: "vec2 \<Rightarrow> vec2 \<Rightarrow> vec2 \<Rightarrow> f32" where
  "edge (ax, ay) (bx, by) (px, py) = (bx - ax) * (py - ay) - (by - ay) * (px - ax)"

definition in_triangle :: "vec2 \<Rightarrow> vec2 \<Rightarrow> vec2 \<Rightarrow> vec2 \<Rightarrow> bool" where
  "in_triangle a b c p =
     ((0 < edge a b c \<and> 0 \<le> edge a b p \<and> 0 \<le> edge b c p \<and> 0 \<le> edge c a p) \<or>
      (edge a b c < 0 \<and> edge a b p \<le> 0 \<and> edge b c p \<le> 0 \<and> edge c a p \<le> 0))"

fun xy :: "vec4 \<Rightarrow> vec2" where
  "xy (x, y, z, w) = (x, y)"

fun zw :: "vec4 \<Rightarrow> vec2" where
  "zw (x, y, z, w) = (z, w)"

fun rgb :: "vec4 \<Rightarrow> vec3" where
  "rgb (r, g, b, a) = (r, g, b)"

fun alpha :: "vec4 \<Rightarrow> f32" where
  "alpha (r, g, b, a) = a"

text \<open>The component-wise order on colours.\<close>

fun le3 :: "vec3 \<Rightarrow> vec3 \<Rightarrow> bool" where
  "le3 (ax, ay, az) (bx, by, bz) = (ax \<le> bx \<and> ay \<le> by \<and> az \<le> bz)"

text \<open>A clip-space position with at least one of \<open>x\<close>, \<open>y\<close> outside \<open>[-1, 1]\<close>.\<close>

fun outside_clip :: "vec4 \<Rightarrow> bool" where
  "outside_clip (x, y, z, w) = (x < -1 \<or> 1 < x \<or> y < -1 \<or> 1 < y)"


section \<open>Waveform-Direct renderer\<close>

text \<open>
  \<open>neuro_visualizer/src/eeg_shader.wgsl\<close>, \<open>vs_main\<close> and \<open>fs_main\<close>. The divisor
  \<open>f32(num_points - 1u)\<close> is zero for a buffer of one sample; the result is \<open>None\<close> when the
  \<open>x\<close> coordinate is not a number.
\<close>

definition direct_vs_main :: "f32 list \<Rightarrow> u32 \<Rightarrow> vec4 option" where
  "direct_vs_main eeg_data in_vertex_index =
     (let num_points = arrayLength eeg_data
      in if in_vertex_index \<ge> num_points
         then Some (-2, -2, 0, 1)
         else (case fdiv (f32_of_u32 in_vertex_index) (f32_of_u32 (num_points - 1)) of
                 None \<Rightarrow> None
               | Some ratio \<Rightarrow>
                   (let x = -1 + ratio * 2;
                        y = load eeg_data in_vertex_index * 0.5
                    in Some (x, y, 0, 1))))"

definition direct_fs_main :: vec4 where
  "direct_fs_main = (0.1, 0.8, 0.4, 1)"


section \<open>Waveform-SDF renderer\<close>

text \<open>
  The uniform block of \<open>src/eeg_shader.wgsl\<close> and \<open>src/shader.wgsl\<close>; both files declare
  the same structure.
\<close>

record Uniforms =
  time :: f32
  resolution_x :: f32
  resolution_y :: f32
  num_columns :: u32


text \<open>
  The two endpoints \<open>p1\<close>, \<open>p2\<close> that the body of the loop of \<open>fs_main\<close> computes for
  its index \<open>i\<close>, in pixel coordinates.
\<close>

definition sdf_segment :: "'a Uniforms_scheme \<Rightarrow> f32 list \<Rightarrow> u32 \<Rightarrow> u32 \<Rightarrow> vec2 \<times> vec2" where
  "sdf_segment uniforms eeg_data num_points i =
     (let p1_norm = (f32_of_u32 i / f32_of_u32 (num_points - 1), (load eeg_data i + 1) / 2);
          p2_norm = (f32_of_u32 (i + 1) / f32_of_u32 (num_points - 1),
                     (load eeg_data (i + 1) + 1) / 2);
          p1 = mul2 p1_norm (resolution_x uniforms, resolution_y uniforms);
          p2 = mul2 p2_norm (resolution_x uniforms, resolution_y uniforms)
      in (p1, p2))"






section \<open>Column-Glow renderer\<close>

text \<open>
  \<open>src/shader.wgsl\<close>. A load past the end of \<open>columns\<close> returns the zero record. The
  built-in fragment position, \<open>frag_coord\<close> in the source, is the parameter \<open>frag_coord'\<close>
  here and in the organic-noise renderer.
\<close>

record Column =
  pos :: vec2
  state :: f32

definition load_column :: "Column list \<Rightarrow> u32 \<Rightarrow> Column" where
  "load_column buf i =
     (if unat i < length buf then buf ! unat i else \<lparr>pos = (0, 0), state = 0\<rparr>)"

definition circle :: "vec2 \<Rightarrow> vec2 \<Rightarrow> f32 \<Rightarrow> f32 \<Rightarrow> f32" where
  "circle uv center radius blur =
     (let d = distance2 uv center in smoothstep radius (radius - blur) d)"

text \<open>
  The loop \<open>for (var i: u32 = 0u; i < num_columns; i = i + 1u)\<close> of \<open>fs_main\<close>, from the
  index \<open>i\<close> and the running \<open>final_color\<close>; the local bound \<open>num_columns\<close> of the source
  is the parameter \<open>num_cols\<close>, the name \<open>num_columns\<close> being the field of the uniform block.
\<close>

function glow_loop :: "vec2 \<Rightarrow> Column list \<Rightarrow> u32 \<Rightarrow> u32 \<Rightarrow> vec3 \<Rightarrow> vec3" where
  "glow_loop uv columns num_cols i final_color =
     (if i < num_cols
      then (let col = load_column columns i;
                intensity = smoothstep 0 0.8 (state col)
            in glow_loop uv columns num_cols (i + 1)
                 (if intensity > 0.01
                  then (let base_color = (0.1, 0.7, 0.9) :: vec3;
                            c = circle uv (pos col) 0.03 (0.03 * 0.9) * intensity
                        in add3 final_color (scale3 (scale3 base_color c) 1.5))
                  else final_color))
      else final_color)"
  by pat_completeness auto
termination
  by (relation "measure (\<lambda>(uv, columns, num_cols, i, final_color).
                   unat num_cols - unat i)")
     (simp, clarsimp, unat_arith)

definition glow_uv :: "'a Uniforms_scheme \<Rightarrow> vec4 \<Rightarrow> vec2" where
  "glow_uv uniforms frag_coord' =
     (let resolution = (resolution_x uniforms, resolution_y uniforms)
      in divs2 (sub2 (xy frag_coord') (scale2 resolution 0.5)) (snd resolution))"

definition glow_fs_main :: "'a Uniforms_scheme \<Rightarrow> Column list \<Rightarrow> vec4 \<Rightarrow> vec4" where
  "glow_fs_main uniforms columns frag_coord' =
     (let uv = glow_uv uniforms frag_coord';
          num_columns = arrayLength columns;
          final_color = glow_loop uv columns num_columns 0 (0, 0, 0.02)
      in (fst final_color, fst (snd final_color), snd (snd final_color), 1))"

text \<open>
  The specification's wording of the same renderer, kept apart from the code for
  comparison: a unit is skipped when \<open>coverage * intensity < 0.01\<close>.
\<close>

function glow_loop_spec :: "vec2 \<Rightarrow> Column list \<Rightarrow> u32 \<Rightarrow> u32 \<Rightarrow> vec3 \<Rightarrow> vec3" where
  "glow_loop_spec uv columns num_cols i final_color =
     (if i < num_cols
      then (let col = load_column columns i;
                coverage = smoothstep 0.03 (0.03 - 0.03 * 0.9) (distance2 uv (pos col));
                intensity = smoothstep 0 0.8 (state col)
            in glow_loop_spec uv columns num_cols (i + 1)
                 (if coverage * intensity < 0.01
                  then final_color
                  else add3 final_color (scale3 (scale3 (0.1, 0.7, 0.9) (coverage * intensity)) 1.5)))
      else final_color)"
  by pat_completeness auto
termination
  by (relation "measure (\<lambda>(uv, columns, num_cols, i, final_color).
                   unat num_cols - unat i)")
     (simp, clarsimp, unat_arith)

definition glow_fs_main_spec :: "'a Uniforms_scheme \<Rightarrow> Column list \<Rightarrow> vec4 \<Rightarrow> vec4" where
  "glow_fs_main_spec uniforms columns frag_coord' =
     (let final_color =
            glow_loop_spec (glow_uv uniforms frag_coord') columns (arrayLength columns) 0 (0, 0, 0.02)
      in (fst final_color, fst (snd final_color), snd (snd final_color), 1))"

text \<open>
  The specification's wording of the iteration bound, kept apart from the code for
  comparison: the loop of the code, run up to the unit count held in the uniform slot.
\<close>

definition glow_fs_main_slot :: "'a Uniforms_scheme \<Rightarrow> Column list \<Rightarrow> vec4 \<Rightarrow> vec4" where
  "glow_fs_main_slot uniforms columns frag_coord' =
     (let final_color =
            glow_loop (glow_uv uniforms frag_coord') columns (num_columns uniforms) 0 (0, 0, 0.02)
      in (fst final_color, fst (snd final_color), snd (snd final_color), 1))"

text \<open>The glow that one unit adds in the code, as a scalar factor of the base hue.\<close>

definition glow_amount :: "vec2 \<Rightarrow> Column \<Rightarrow> f32" where
  "glow_amount uv col =
     (let intensity = smoothstep 0 0.8 (state col)
      in if intensity > 0.01 then circle uv (pos col) 0.03 (0.03 * 0.9) * intensity else 0)"


section \<open>Organic-Noise renderer\<close>

text \<open>The organic-noise shader (\<open>src/unnamed/part_000\<close>).\<close>

record NoiseUniforms =
  time :: f32
  resolution_x :: f32
  resolution_y :: f32
  awareness_level :: f32

fun map2 :: "(f32 \<Rightarrow> f32) \<Rightarrow> vec2 \<Rightarrow> vec2" where
  "map2 f (x, y) = (f x, f y)"

fun map3 :: "(f32 \<Rightarrow> f32) \<Rightarrow> vec3 \<Rightarrow> vec3" where
  "map3 f (x, y, z) = (f x, f y, f z)"

definition mod289_v3 :: "vec3 \<Rightarrow> vec3" where
  "mod289_v3 x = sub3 x (scale3 (map3 floor_f32 (scale3 x (1 / 289))) 289)"

definition mod289_v2 :: "vec2 \<Rightarrow> vec2" where
  "mod289_v2 x = sub2 x (scale2 (map2 floor_f32 (scale2 x (1 / 289))) 289)"

definition permute :: "vec3 \<Rightarrow> vec3" where
  "permute x = mod289_v3 (mul3 (adds3 (scale3 x 34) 1) x)"

definition snoise :: "vec2 \<Rightarrow> f32" where
  "snoise v =
     (let C = (0.2113248654, 0.3660254038, - 0.5773502692, 0.0243902439) :: vec4;
          Cx = fst C; Cy = fst (snd C); Cw = snd (snd (snd C));
          i = map2 floor_f32 (adds2 v (dot2 v (Cy, Cy)));
          x0 = adds2 (sub2 v i) (dot2 i (Cx, Cx));
          i1 = (if fst x0 > snd x0 then (1, 0) else (0, 1)) :: vec2;
          x1 = add2 (sub2 x0 i1) (Cx, Cx);
          x2 = add2 (subs2 x0 1) (scale2 (Cx, Cx) 2);
          i = mod289_v2 i;
          p = permute (add3 (adds3 (permute (adds3 (0, snd i1, 1) (snd i))) (fst i))
                            (0, fst i1, 1));
          m = map3 (\<lambda>e. max e 0) (map3 (\<lambda>e. 0.5 - e) (dot2 x0 x0, dot2 x1 x1, dot2 x2 x2));
          m = mul3 m m;
          m = mul3 m m;
          x = subs3 (scale3 (map3 fract (mul3 p (Cw, Cw, Cw))) 2) 1;
          h = subs3 (map3 abs x) 0.5;
          ox = map3 floor_f32 (adds3 x 0.5);
          a0 = sub3 x ox;
          m = mul3 m (map3 (\<lambda>e. 1.79284291400159 - 0.85373472095314 * e)
                           (add3 (mul3 a0 a0) (mul3 h h)));
          g = (fst a0 * fst x0 + fst h * snd x0,
               fst (snd a0) * fst x1 + fst (snd h) * snd x1,
               snd (snd a0) * fst x2 + snd (snd h) * snd x2)
      in 130 * dot3 m g)"

text \<open>The control parameters that \<open>fs_main\<close> derives from the awareness level.\<close>

definition time_speed :: "f32 \<Rightarrow> f32" where
  "time_speed awareness = mix 2.0 0.1 awareness"

definition zoom :: "f32 \<Rightarrow> f32" where
  "zoom awareness = mix 5.0 2.0 awareness"

definition distortion_amount :: "f32 \<Rightarrow> f32" where
  "distortion_amount awareness = mix 0.8 0.0 awareness"

definition bright_weight :: "f32 \<Rightarrow> f32" where
  "bright_weight awareness = awareness * awareness"

text \<open>The colour of \<open>fs_main\<close> before the bright hue is blended in.\<close>

definition noise_base_color :: "'a NoiseUniforms_scheme \<Rightarrow> vec4 \<Rightarrow> vec3" where
  "noise_base_color uniforms frag_coord' =
     (let resolution = (NoiseUniforms.resolution_x uniforms, NoiseUniforms.resolution_y uniforms);
          uv = div2 (xy frag_coord') resolution;
          awareness = awareness_level uniforms;
          p = scale2 uv (zoom awareness);
          t = NoiseUniforms.time uniforms * time_speed awareness;
          f = 0;
          f = f + 0.5000 * snoise (adds2 p t);
          f = f + 0.2500 * snoise (adds2 (scale2 p 2) (t * 1.5));
          f = f + 0.1250 * snoise (adds2 (scale2 p 4) (t * 2));
          f = f + 0.0625 * snoise (adds2 (scale2 p 8) (t * 2.5));
          q = (f, f);
          r = (snoise (adds2 (add2 (add2 p (scale2 q (distortion_amount awareness))) (1.7, 9.2)) t),
               snoise (adds2 (add2 (add2 p (scale2 q (distortion_amount awareness))) (8.3, 2.8)) t));
          dark_color = (0, 0, 0.05);
          mid_color = (0.1, 0.3, 0.8)
      in mix3 dark_color mid_color (smoothstep (- 0.1) 0.4 (fst r)))"

definition noise_fs_main :: "'a NoiseUniforms_scheme \<Rightarrow> vec4 \<Rightarrow> vec4" where
  "noise_fs_main uniforms frag_coord' =
     (let awareness = awareness_level uniforms;
          bright_color = (0.8, 0.9, 1.0) :: vec3;
          color = noise_base_color uniforms frag_coord';
          color = mix3 color bright_color (bright_weight awareness)
      in (fst color, fst (snd color), snd (snd color), 1))"


section \<open>Facts about buffers and indices\<close>

lemma unat_arrayLength_le: "unat (arrayLength xs) \<le> length xs"
  by (simp add: arrayLength_def unat_of_nat)

lemma load_in_range: "i < arrayLength buf \<Longrightarrow> load buf i = buf ! unat i"
  using unat_arrayLength_le [of buf] by (simp add: load_def word_less_nat_alt)

lemma unat_minus_one_pos: "i < (n :: u32) \<Longrightarrow> unat (n - 1) = unat n - 1"
  by unat_arith

lemma unat_succ_below: "i < (n :: u32) \<Longrightarrow> unat (i + 1) = unat i + 1"
  by unat_arith

text \<open>The conversion is exact up to \<open>2 ^ 24\<close>, and rounds from there on.\<close>

lemma f32_of_u32_exact:
  assumes "unat w \<le> 16777216"
  shows "f32_of_u32 w = real (unat w)"
proof (cases "unat w < 16777216")
  case True
  then show ?thesis by (simp add: f32_of_u32_def f32_ulp_def Let_def)
next
  case False
  then have "unat w = 16777216" using assms by simp
  then show ?thesis by (simp add: f32_of_u32_def f32_ulp_def Let_def)
qed

lemma f32_of_u32_rounds: "f32_of_u32 16777217 = 16777216"
  by (simp add: f32_of_u32_def f32_ulp_def Let_def)


section \<open>Properties of the full-screen stage\<close>

text \<open>
  A point of a triangle in the sense of \<open>in_triangle\<close> is a convex combination of its
  three vertices.
\<close>

lemma in_triangle_convex:
  assumes "in_triangle a b c p"
  shows "\<exists>l0 l1 l2. 0 \<le> l0 \<and> 0 \<le> l1 \<and> 0 \<le> l2 \<and> l0 + l1 + l2 = 1 \<and>
           p = add2 (add2 (scale2 a l0) (scale2 b l1)) (scale2 c l2)"
proof -
  obtain ax ay bx by' cx cy px py
    where v: "a = (ax, ay)" "b = (bx, by')" "c = (cx, cy)" "p = (px, py)"
    by (metis surj_pair)
  define D where "D = edge a b c"
  define l0 where "l0 = edge b c p / D"
  define l1 where "l1 = edge c a p / D"
  define l2 where "l2 = edge a b p / D"
  have D: "D \<noteq> 0" using assms by (auto simp: in_triangle_def D_def)
  have nonneg: "0 \<le> l0" "0 \<le> l1" "0 \<le> l2"
    using assms unfolding in_triangle_def l0_def l1_def l2_def D_def
    by (auto intro: divide_nonneg_pos divide_nonpos_neg less_imp_le)
  have "edge b c p + edge c a p + edge a b p = D"
    unfolding D_def v by (simp add: algebra_simps)
  then have sum1: "l0 + l1 + l2 = 1"
    unfolding l0_def l1_def l2_def using D by (simp add: add_divide_distrib [symmetric])
  have "ax * edge b c p + bx * edge c a p + cx * edge a b p = px * D"
    and "ay * edge b c p + by' * edge c a p + cy * edge a b p = py * D"
    unfolding D_def v by (simp_all add: algebra_simps)
  then have "ax * l0 + bx * l1 + cx * l2 = px" and "ay * l0 + by' * l1 + cy * l2 = py"
    unfolding l0_def l1_def l2_def using D by (simp_all add: field_simps)
  then have "p = add2 (add2 (scale2 a l0) (scale2 b l1)) (scale2 c l2)"
    unfolding v by simp
  then show ?thesis using nonneg sum1 by blast
qed

text \<open>
  C8. For every vertex index \<open>i\<close> in \<open>{0, 1, 2}\<close>, the explicit oversized-triangle stage
  and both copies of the bit-parity stage emit a position with \<open>z = 0\<close> and \<open>w = 1\<close>. The
  three positions are \<open>(-1, -1)\<close>, \<open>(3, -1)\<close>, \<open>(-1, 3)\<close> for the explicit construction and
  \<open>(-1, -1)\<close>, \<open>(-1, 3)\<close>, \<open>(3, -1)\<close> for the bit-parity construction, and the triangle they
  form, of non-zero area, contains every point \<open>(x, y)\<close> of the clip-space square
  \<open>[-1, 1] \<times> [-1, 1]\<close>. The stages take the vertex index as their only argument: no
  buffer is read.
\<close>

theorem fullscreen_stage_covers_clip_square:
  fixes i :: u32 and x y :: f32
  assumes "i \<in> {0, 1, 2}" and "-1 \<le> x" and "x \<le> 1" and "-1 \<le> y" and "y \<le> 1"
  shows "(\<exists>out. sdf_vs_main i = Some out \<and> zw (clip_position out) = (0, 1)) \<and>
         zw (glow_vs_main i) = (0, 1) \<and> zw (noise_vs_main i) = (0, 1) \<and>
         map sdf_vs_main [0, 1, 2] =
           [Some \<lparr>clip_position = (-1, -1, 0, 1), frag_coord = (-1, -1)\<rparr>,
            Some \<lparr>clip_position = (3, -1, 0, 1), frag_coord = (3, -1)\<rparr>,
            Some \<lparr>clip_position = (-1, 3, 0, 1), frag_coord = (-1, 3)\<rparr>] \<and>
         map glow_vs_main [0, 1, 2] = [(-1, -1, 0, 1), (-1, 3, 0, 1), (3, -1, 0, 1)] \<and>
         map noise_vs_main [0, 1, 2] = [(-1, -1, 0, 1), (-1, 3, 0, 1), (3, -1, 0, 1)] \<and>
         in_triangle (xy (clip_position (the (sdf_vs_main 0))))
                     (xy (clip_position (the (sdf_vs_main 1))))
                     (xy (clip_position (the (sdf_vs_main 2)))) (x, y) \<and>
         in_triangle (xy (glow_vs_main 0)) (xy (glow_vs_main 1)) (xy (glow_vs_main 2)) (x, y) \<and>
         in_triangle (xy (noise_vs_main 0)) (xy (noise_vs_main 1)) (xy (noise_vs_main 2)) (x, y)"
proof -
  have zw_sdf: "\<exists>out. sdf_vs_main i = Some out \<and> zw (clip_position out) = (0, 1)"
    using assms(1) by (auto simp: sdf_vs_main_def Let_def)
  have zw_par: "zw (glow_vs_main i) = (0, 1)" "zw (noise_vs_main i) = (0, 1)"
    by (simp_all add: glow_vs_main_def noise_vs_main_def Let_def)
  have pos_sdf: "map sdf_vs_main [0, 1, 2] =
           [Some \<lparr>clip_position = (-1, -1, 0, 1), frag_coord = (-1, -1)\<rparr>,
            Some \<lparr>clip_position = (3, -1, 0, 1), frag_coord = (3, -1)\<rparr>,
            Some \<lparr>clip_position = (-1, 3, 0, 1), frag_coord = (-1, 3)\<rparr>]"
    by (simp add: sdf_vs_main_def Let_def)
  have pos_glow: "map glow_vs_main [0, 1, 2] = [(-1, -1, 0, 1), (-1, 3, 0, 1), (3, -1, 0, 1)]"
    by (simp add: glow_vs_main_def f32_of_u32_exact Let_def)
  have pos_noise: "map noise_vs_main [0, 1, 2] = [(-1, -1, 0, 1), (-1, 3, 0, 1), (3, -1, 0, 1)]"
    by (simp add: noise_vs_main_def f32_of_u32_exact Let_def)
  have tri_sdf: "in_triangle (xy (clip_position (the (sdf_vs_main 0))))
                     (xy (clip_position (the (sdf_vs_main 1))))
                     (xy (clip_position (the (sdf_vs_main 2)))) (x, y)"
    using assms(2-5) pos_sdf by (simp add: in_triangle_def)
  have tri_glow: "in_triangle (xy (glow_vs_main 0)) (xy (glow_vs_main 1)) (xy (glow_vs_main 2)) (x, y)"
    using assms(2-5) pos_glow by (simp add: in_triangle_def)
  have tri_noise: "in_triangle (xy (noise_vs_main 0)) (xy (noise_vs_main 1)) (xy (noise_vs_main 2)) (x, y)"
    using assms(2-5) pos_noise by (simp add: in_triangle_def)
  show ?thesis
    using zw_sdf zw_par pos_sdf pos_glow pos_noise tri_sdf tri_glow tri_noise by blast
qed

theorem fullscreen_stage_covers_clip_square_witness:
  "(1 :: u32) \<in> {0, 1, 2} \<and> (-1 :: f32) \<le> 1 / 2 \<and> (1 / 2 :: f32) \<le> 1 \<and>
   (-1 :: f32) \<le> - (1 / 4) \<and> (- (1 / 4) :: f32) \<le> 1 \<and>
   sdf_vs_main 1 = Some \<lparr>clip_position = (3, -1, 0, 1), frag_coord = (3, -1)\<rparr> \<and>
   glow_vs_main 1 = (-1, 3, 0, 1) \<and> noise_vs_main 1 = (-1, 3, 0, 1) \<and>
   in_triangle (-1, -1) (3, -1) (-1, 3) (1 / 2, - (1 / 4)) \<and>
   in_triangle (-1, -1) (-1, 3) (3, -1) (1 / 2, - (1 / 4)) \<and>
   \<not> in_triangle (-1, -1) (-1, 3) (3, -1) (2, 2) \<and>
   \<not> in_triangle (-1, 3) (-1, 3) (-1, 3) (1 / 2, - (1 / 4))"
  using fullscreen_stage_covers_clip_square [of 1 "1 / 2" "- (1 / 4)"]
  by (simp add: in_triangle_def)


section \<open>Properties of the Waveform-Direct renderer\<close>

text \<open>
  C4, as amended. With \<open>N\<close> the live sample count \<open>arrayLength eeg_data\<close> and \<open>i\<close> the vertex
  index: if \<open>i \<ge> N\<close> the emitted position is \<open>(-2, -2, 0, 1)\<close>, both of whose coordinates are
  outside \<open>[-1, 1]\<close>; if \<open>i < N\<close> and \<open>2 \<le> N \<le> 2 ^ 24 + 1\<close>, where the conversions of \<open>i\<close>
  and of \<open>N - 1\<close> are exact, the emitted position is \<open>x = -1 + 2 * i / (N - 1)\<close>,
  \<open>y = sample[i] * 0.5\<close>, \<open>z = 0\<close>, \<open>w = 1\<close>.
\<close>

theorem direct_vs_main_position_in_range:
  fixes eeg_data :: "f32 list" and i :: u32
  shows "(arrayLength eeg_data \<le> i \<longrightarrow>
            direct_vs_main eeg_data i = Some (-2, -2, 0, 1) \<and> outside_clip (-2, -2, 0, 1)) \<and>
         (i < arrayLength eeg_data \<and> 2 \<le> unat (arrayLength eeg_data) \<and>
          unat (arrayLength eeg_data) \<le> 16777217 \<longrightarrow>
            direct_vs_main eeg_data i =
              Some (-1 + 2 * real (unat i) / (real (unat (arrayLength eeg_data)) - 1),
                    eeg_data ! unat i * 0.5, 0, 1))"
proof (intro conjI impI)
  assume "arrayLength eeg_data \<le> i"
  then show "direct_vs_main eeg_data i = Some (-2, -2, 0, 1)"
    by (simp add: direct_vs_main_def Let_def)
next
  show "outside_clip (-2, -2, 0, 1)" by simp
next
  assume range: "i < arrayLength eeg_data \<and> 2 \<le> unat (arrayLength eeg_data) \<and>
                 unat (arrayLength eeg_data) \<le> 16777217"
  let ?n = "arrayLength eeg_data"
  from range have lt: "i < ?n" and two: "2 \<le> unat ?n" and top: "unat ?n \<le> 16777217"
    by simp_all
  have um: "unat (?n - 1) = unat ?n - 1" using lt by (rule unat_minus_one_pos)
  have "unat (?n - 1) \<le> 16777216" using um top by simp
  then have "f32_of_u32 (?n - 1) = real (unat (?n - 1))" by (rule f32_of_u32_exact)
  then have m1: "f32_of_u32 (?n - 1) = real (unat ?n) - 1"
    using um two by (simp add: of_nat_diff)
  have "unat i \<le> 16777216" using lt top by unat_arith
  then have fi: "f32_of_u32 i = real (unat i)" by (rule f32_of_u32_exact)
  have nz: "real (unat ?n) - 1 \<noteq> 0" using two by linarith
  have ld: "load eeg_data i = eeg_data ! unat i"
    using lt by (rule load_in_range)
  have ng: "\<not> ?n \<le> i" using lt by simp
  have "direct_vs_main eeg_data i =
          Some (-1 + (real (unat i) / (real (unat ?n) - 1)) * 2, eeg_data ! unat i * 0.5, 0, 1)"
    using ng nz unfolding direct_vs_main_def Let_def fdiv_def m1 fi ld by simp
  then show "direct_vs_main eeg_data i =
          Some (-1 + 2 * real (unat i) / (real (unat ?n) - 1), eeg_data ! unat i * 0.5, 0, 1)"
    by simp
qed

theorem direct_vs_main_position_in_range_witness:
  "arrayLength [0.5, -1 :: f32] \<le> 2 \<and> direct_vs_main [0.5, -1] 2 = Some (-2, -2, 0, 1) \<and>
   1 < arrayLength [0.5, -1 :: f32] \<and> 2 \<le> unat (arrayLength [0.5, -1 :: f32]) \<and>
   unat (arrayLength [0.5, -1 :: f32]) \<le> 16777217 \<and>
   direct_vs_main [0.5, -1] 1 = Some (1, - 0.5, 0, 1)"
  using direct_vs_main_position_in_range [of "[0.5, -1]" 2]
    direct_vs_main_position_in_range [of "[0.5, -1]" 1]
  by (simp add: arrayLength_def)

text \<open>
  C4, as stated for every \<open>N\<close>, fails in two places. With one sample and \<open>i = 0\<close> the
  divisor \<open>f32(num_points - 1u)\<close> is zero and \<open>x\<close> is not a number. With \<open>2 ^ 24 + 3\<close> samples
  and \<open>i = 2 ^ 24 + 1\<close> the conversion of \<open>i\<close> rounds to \<open>2 ^ 24\<close>, and \<open>x\<close> is
  \<open>8388607 / 8388609\<close> where \<open>-1 + 2 * i / (N - 1)\<close> is \<open>8388608 / 8388609\<close>.
\<close>

theorem direct_vs_main_position_counterexample:
  "(0 :: u32) < arrayLength [0.5 :: f32] \<and> direct_vs_main [0.5] 0 = None \<and>
   (16777217 :: u32) < arrayLength (replicate 16777219 (0 :: f32)) \<and>
   direct_vs_main (replicate 16777219 0) 16777217 = Some (8388607 / 8388609, 0, 0, 1) \<and>
   -1 + 2 * real (unat (16777217 :: u32))
          / (real (unat (arrayLength (replicate 16777219 (0 :: f32)))) - 1)
     = 8388608 / 8388609"
  by (simp add: direct_vs_main_def arrayLength_def fdiv_def load_def f32_of_u32_def
        f32_ulp_def Let_def)


section \<open>Properties of the Waveform-SDF renderer\<close>

subsection \<open>The loop and the distance to a segment\<close>










lemma sdf_segment_dx:
  assumes "i < n - 1" and "unat (n - 1) \<le> 16777216"
  shows "fst (snd (sdf_segment u d n i)) - fst (fst (sdf_segment u d n i))
           = Uniforms.resolution_x u / real (unat (n - 1))"
proof -
  have su: "unat (i + 1) = unat i + 1" using assms(1) by (rule unat_succ_below)
  have "unat (i + 1) \<le> unat (n - 1)" using assms(1) by unat_arith
  then have i1: "unat (i + 1) \<le> 16777216" and i0: "unat i \<le> 16777216"
    using assms(2) su by simp_all
  have suc: "f32_of_u32 (i + 1) = f32_of_u32 i + 1"
    using su by (simp add: f32_of_u32_exact [OF i1] f32_of_u32_exact [OF i0])
  have "fst (snd (sdf_segment u d n i)) - fst (fst (sdf_segment u d n i))
          = (f32_of_u32 i + 1) / f32_of_u32 (n - 1) * Uniforms.resolution_x u
            - f32_of_u32 i / f32_of_u32 (n - 1) * Uniforms.resolution_x u"
    by (simp add: sdf_segment_def Let_def suc)
  also have "\<dots> = Uniforms.resolution_x u / f32_of_u32 (n - 1)"
    by (simp add: add_divide_distrib algebra_simps)
  finally show ?thesis by (simp add: f32_of_u32_exact [OF assms(2)])
qed

lemma sdf_segment_dot_pos:
  assumes "i < n - 1" and "unat (n - 1) \<le> 16777216" and "0 < Uniforms.resolution_x u"
  shows "0 < dot2 (sub2 (snd (sdf_segment u d n i)) (fst (sdf_segment u d n i)))
                  (sub2 (snd (sdf_segment u d n i)) (fst (sdf_segment u d n i)))"
proof -
  obtain ax ay bx by' where ab: "sdf_segment u d n i = ((ax, ay), (bx, by'))"
    by (metis surj_pair)
  have "0 < unat (n - 1)" using assms(1) by unat_arith
  then have "(0 :: real) < real (unat (n - 1))" by (simp only: of_nat_0_less_iff)
  with assms(3) have "0 < Uniforms.resolution_x u / real (unat (n - 1))"
    by (rule divide_pos_pos)
  then have "0 < bx - ax" using sdf_segment_dx [OF assms(1,2), of u d] ab by simp
  then have "0 < (bx - ax) * (bx - ax)" by simp
  moreover have "0 \<le> (by' - ay) * (by' - ay)" by simp
  ultimately have "0 < (bx - ax) * (bx - ax) + (by' - ay) * (by' - ay)"
    by (rule add_pos_nonneg)
  then show ?thesis by (simp add: ab)
qed





text \<open>
  C10, as amended. For a buffer of \<open>N\<close> samples with \<open>2 \<le> N \<le> 2 ^ 22\<close> and a width between
  \<open>1\<close> and \<open>2 ^ 24\<close> pixels, every index \<open>i\<close> that passes the guard \<open>i < num_points - 1u\<close> of
  the loop gives \<open>dist_to_segment\<close> two endpoints whose pixel-space \<open>x\<close> coordinates differ by
  \<open>resolution_x / (N - 1) > 0\<close>, so that \<open>dot(ba, ba) > 0\<close> and the quotient
  \<open>dot(pa, ba) / dot(ba, ba)\<close> has a non-zero divisor. In this range the conversions of
  \<open>i\<close>, \<open>i + 1\<close> and \<open>N - 1\<close> are exact.
\<close>

theorem sdf_segment_endpoints_distinct_in_range:
  assumes "2 \<le> arrayLength eeg_data" and "unat (arrayLength eeg_data) \<le> 4194304"
    and "1 \<le> Uniforms.resolution_x u" and "Uniforms.resolution_x u \<le> 16777216"
    and "i < arrayLength eeg_data - 1"
  shows "fst (snd (sdf_segment u eeg_data (arrayLength eeg_data) i))
           - fst (fst (sdf_segment u eeg_data (arrayLength eeg_data) i))
           = Uniforms.resolution_x u / (real (unat (arrayLength eeg_data)) - 1) \<and>
         0 < Uniforms.resolution_x u / (real (unat (arrayLength eeg_data)) - 1) \<and>
         0 < dot2 (sub2 (snd (sdf_segment u eeg_data (arrayLength eeg_data) i))
                        (fst (sdf_segment u eeg_data (arrayLength eeg_data) i)))
                  (sub2 (snd (sdf_segment u eeg_data (arrayLength eeg_data) i))
                        (fst (sdf_segment u eeg_data (arrayLength eeg_data) i)))"
proof -
  let ?n = "arrayLength eeg_data"
  have two: "2 \<le> unat ?n" using assms(1) by unat_arith
  have um: "unat (?n - 1) = unat ?n - 1" using assms(1) by unat_arith
  then have small: "unat (?n - 1) \<le> 16777216" using assms(2) by simp
  have m1: "real (unat (?n - 1)) = real (unat ?n) - 1"
    using um two by (simp add: of_nat_diff)
  have rx: "0 < Uniforms.resolution_x u" using assms(3) by simp
  have dx: "fst (snd (sdf_segment u eeg_data ?n i)) - fst (fst (sdf_segment u eeg_data ?n i))
              = Uniforms.resolution_x u / (real (unat ?n) - 1)"
    using sdf_segment_dx [OF assms(5) small, of u eeg_data] unfolding m1 .
  have "(0 :: real) < real (unat ?n) - 1" using two by linarith
  with rx have pos: "0 < Uniforms.resolution_x u / (real (unat ?n) - 1)"
    by (rule divide_pos_pos)
  show ?thesis using dx pos sdf_segment_dot_pos [OF assms(5) small rx, of eeg_data] by blast
qed

theorem sdf_segment_endpoints_distinct_in_range_witness:
  "2 \<le> arrayLength [-1, 1 :: f32] \<and> unat (arrayLength [-1, 1 :: f32]) \<le> 4194304 \<and>
   1 \<le> Uniforms.resolution_x \<lparr>Uniforms.time = 0, resolution_x = 800, resolution_y = 600, num_columns = 0\<rparr> \<and>
   Uniforms.resolution_x \<lparr>Uniforms.time = 0, resolution_x = 800, resolution_y = 600, num_columns = 0\<rparr> \<le> 16777216 \<and>
   0 < arrayLength [-1, 1 :: f32] - 1 \<and>
   sdf_segment \<lparr>Uniforms.time = 0, resolution_x = 800, resolution_y = 600, num_columns = 0\<rparr>
     [-1, 1] (arrayLength [-1, 1 :: f32]) 0 = ((0, 0), (800, 600)) \<and>
   (0 :: f32) < dot2 (sub2 (800, 600) (0, 0)) (sub2 (800, 600) (0, 0))"
  using sdf_segment_endpoints_distinct_in_range
    [of "[-1, 1]" "\<lparr>Uniforms.time = 0, resolution_x = 800, resolution_y = 600, num_columns = 0\<rparr>" 0]
  by (simp add: arrayLength_def sdf_segment_def load_def f32_of_u32_exact Let_def)

text \<open>
  C10, as stated for every \<open>N \<ge> 2\<close>, fails: with \<open>2 ^ 24 + 2\<close> equal samples on an 800 by
  600 target, the index \<open>i = 2 ^ 24\<close> passes the guard of the loop, the conversions of
  \<open>i\<close>, \<open>i + 1\<close> and \<open>N - 1\<close> all give \<open>2 ^ 24\<close>, the two endpoints are the same point
  \<open>(800, 300)\<close>, and \<open>dot(ba, ba) = 0\<close>.
\<close>

theorem sdf_segment_endpoints_counterexample:
  "2 \<le> arrayLength (replicate 16777218 (0 :: f32)) \<and>
   0 < Uniforms.resolution_x \<lparr>Uniforms.time = 0, resolution_x = 800, resolution_y = 600, num_columns = 0\<rparr> \<and>
   (16777216 :: u32) < arrayLength (replicate 16777218 (0 :: f32)) - 1 \<and>
   sdf_segment \<lparr>Uniforms.time = 0, resolution_x = 800, resolution_y = 600, num_columns = 0\<rparr> (replicate 16777218 0) (arrayLength (replicate 16777218 (0 :: f32))) 16777216
     = ((800, 300), (800, 300)) \<and>
   dot2 (sub2 (800, 300) (800, 300)) (sub2 (800, 300) (800, 300)) = (0 :: f32)"
  by (simp add: arrayLength_def sdf_segment_def load_def f32_of_u32_def f32_ulp_def Let_def)



subsection \<open>Buffers with fewer than two samples\<close>

text \<open>
  A storage-buffer binding is never empty: a binding of size zero is refused before any
  draw, and a runtime-sized \<open>array<f32>\<close> counts at least one element. A live sample count
  in \<open>{0, 1}\<close> therefore reaches the fragment stage of the Waveform-SDF renderer as a buffer
  of one sample. The bound \<open>num_points - 1u\<close> is then \<open>0\<close> and the loop body never runs. (On
  an empty list the \<open>u32\<close> subtraction would wrap around, which is why the binding rule is a
  hypothesis below.)
\<close>

lemma sdf_loop_bound_empty: "arrayLength ([] :: f32 list) - 1 = 4294967295"
  by (simp add: arrayLength_def)







section \<open>Properties of the Column-Glow renderer\<close>

subsection \<open>The loop as a sum over the units\<close>

declare glow_loop.simps [simp del] glow_loop_spec.simps [simp del]

lemma clamp_unit: "0 \<le> clamp e 0 1 \<and> clamp e 0 1 \<le> 1"
  by (simp add: clamp_def)

lemma smoothstep_range: "0 \<le> smoothstep low high x \<and> smoothstep low high x \<le> 1"
proof -
  define t where "t = clamp ((x - low) / (high - low)) 0 1"
  have t: "0 \<le> t" "t \<le> 1" using clamp_unit [of "(x - low) / (high - low)"] by (simp_all add: t_def)
  have lo: "0 \<le> t * t * (3 - 2 * t)" using t by simp
  have "1 - t * t * (3 - 2 * t) = (1 - t) * (1 - t) * (1 + 2 * t)" by (simp add: algebra_simps)
  moreover have "0 \<le> (1 - t) * (1 - t) * (1 + 2 * t)" using t by simp
  ultimately have hi: "t * t * (3 - 2 * t) \<le> 1" by linarith
  show ?thesis using lo hi by (simp add: smoothstep_def Let_def t_def)
qed

lemma circle_range: "0 \<le> circle uv c r b \<and> circle uv c r b \<le> 1"
  by (simp add: circle_def Let_def smoothstep_range)

lemma glow_amount_nonneg: "0 \<le> glow_amount uv col"
proof -
  have "0 \<le> circle uv (pos col) 0.03 (0.03 * 0.9)" using circle_range by blast
  moreover have "0 \<le> smoothstep 0 0.8 (state col)" using smoothstep_range by blast
  ultimately show ?thesis by (simp add: glow_amount_def Let_def)
qed

lemma glow_loop_stop: "\<not> i < n \<Longrightarrow> glow_loop uv cols n i acc = acc"
  by (subst glow_loop.simps) simp

lemma glow_loop_step:
  "i < n \<Longrightarrow>
   glow_loop uv cols n i acc =
     glow_loop uv cols n (i + 1)
       (add3 acc (scale3 (scale3 (0.1, 0.7, 0.9) (glow_amount uv (load_column cols i))) 1.5))"
  by (subst glow_loop.simps) (cases acc, simp add: glow_amount_def Let_def)

lemma le3_refl: "le3 a a"
  by (cases a) simp

lemma le3_trans: "le3 a b \<Longrightarrow> le3 b c \<Longrightarrow> le3 a c"
  by (cases a, cases b, cases c) simp

lemma le3_add_glow: "0 \<le> g \<Longrightarrow> le3 acc (add3 acc (scale3 (scale3 (0.1, 0.7, 0.9) g) 1.5))"
  by (cases acc) simp

lemma glow_loop_increases: "le3 acc (glow_loop uv cols n i acc)"
proof (induction "unat n - unat i" arbitrary: i acc)
  case 0
  then have "\<not> i < n" by unat_arith
  then show ?case by (simp add: glow_loop_stop le3_refl)
next
  case (Suc k)
  then have lt: "i < n" by unat_arith
  have "k = unat n - unat (i + 1)" using Suc.hyps(2) lt by unat_arith
  then have "le3 (add3 acc (scale3 (scale3 (0.1, 0.7, 0.9) (glow_amount uv (load_column cols i))) 1.5))
               (glow_loop uv cols n (i + 1)
                  (add3 acc (scale3 (scale3 (0.1, 0.7, 0.9) (glow_amount uv (load_column cols i))) 1.5)))"
    by (rule Suc.hyps(1))
  moreover have "le3 acc (add3 acc (scale3 (scale3 (0.1, 0.7, 0.9) (glow_amount uv (load_column cols i))) 1.5))"
    using glow_amount_nonneg by (rule le3_add_glow)
  ultimately show ?case unfolding glow_loop_step [OF lt] by (rule le3_trans [rotated])
qed

lemma glow_loop_sum:
  "glow_loop uv cols n i acc =
     add3 acc (scale3 (scale3 (0.1, 0.7, 0.9)
                 (\<Sum>j = unat i..<unat n. glow_amount uv (load_column cols (of_nat j)))) 1.5)"
proof (induction "unat n - unat i" arbitrary: i acc)
  case 0
  then have "\<not> i < n" and "unat n \<le> unat i" by unat_arith+
  then show ?case by (cases acc) (simp add: glow_loop_stop)
next
  case (Suc k)
  then have lt: "i < n" by unat_arith
  then have ui: "unat i < unat n" by unat_arith
  have su: "unat (i + 1) = Suc (unat i)" using lt by unat_arith
  have "k = unat n - unat (i + 1)" using Suc.hyps(2) lt by unat_arith
  note IH = Suc.hyps(1) [OF this]
  have split: "(\<Sum>j = unat i..<unat n. glow_amount uv (load_column cols (of_nat j)))
                 = glow_amount uv (load_column cols i)
                   + (\<Sum>j = unat (i + 1)..<unat n. glow_amount uv (load_column cols (of_nat j)))"
    unfolding su using ui by (simp add: sum.atLeast_Suc_lessThan)
  show ?case unfolding glow_loop_step [OF lt] IH split
    by (cases acc) (simp add: algebra_simps)
qed


lemma load_column_in_range:
  assumes "j < unat (arrayLength cols)"
  shows "load_column cols (of_nat j) = cols ! j"
proof -
  have "j < 2 ^ 32" using assms unsigned_less [of "arrayLength cols", where 'a = nat] by simp
  then have "unat (of_nat j :: u32) = j" by (simp add: unat_of_nat)
  then show ?thesis using assms unat_arrayLength_le [of cols] by (simp add: load_column_def)
qed

lemma glow_fs_main_closed_form:
  "glow_fs_main u cols fc =
     (let total = (\<Sum>j<unat (arrayLength cols). glow_amount (glow_uv u fc) (cols ! j))
      in (0.1 * total * 1.5, 0.7 * total * 1.5, 0.02 + 0.9 * total * 1.5, 1))"
proof -
  have "(\<Sum>j = unat (0 :: u32)..<unat (arrayLength cols).
            glow_amount (glow_uv u fc) (load_column cols (of_nat j)))
          = (\<Sum>j<unat (arrayLength cols). glow_amount (glow_uv u fc) (cols ! j))"
    by (simp add: load_column_in_range atLeast0LessThan)
  then show ?thesis
    by (simp add: glow_fs_main_def glow_loop_sum Let_def)
qed

text \<open>
  C9. Whatever the frame state and the fragment, the output of the Column-Glow renderer has
  alpha \<open>1\<close> and every colour component at least that of the background \<open>(0, 0, 0.02)\<close>.
  Coverage and intensity are smoothstep values in \<open>[0, 1]\<close>, and the loop, started at any
  index with any running colour, returns a colour that is component-wise at least the
  colour it was started with.
\<close>

theorem glow_fs_main_at_least_background:
  "le3 final_color (glow_loop uv columns num_cols i final_color) \<and>
   le3 (0, 0, 0.02) (rgb (glow_fs_main u columns fc)) \<and>
   alpha (glow_fs_main u columns fc) = 1 \<and>
   0 \<le> circle uv center 0.03 (0.03 * 0.9) \<and> circle uv center 0.03 (0.03 * 0.9) \<le> 1 \<and>
   0 \<le> smoothstep 0 0.8 activation \<and> smoothstep 0 0.8 activation \<le> 1"
proof -
  have "le3 (0, 0, 0.02) (glow_loop (glow_uv u fc) columns (arrayLength columns) 0 (0, 0, 0.02))"
    by (rule glow_loop_increases)
  then have "le3 (0, 0, 0.02) (rgb (glow_fs_main u columns fc))"
    by (cases "glow_loop (glow_uv u fc) columns (arrayLength columns) 0 (0, 0, 0.02)")
       (simp add: glow_fs_main_def Let_def)
  moreover have "alpha (glow_fs_main u columns fc) = 1"
    by (simp add: glow_fs_main_def Let_def)
  ultimately show ?thesis
    using glow_loop_increases [of final_color uv columns num_cols i]
      circle_range [of uv center "0.03" "0.03 * 0.9"] smoothstep_range [of 0 "0.8" activation]
    by blast
qed

text \<open>
  C2, as amended. The output is the background plus \<open>base_hue * 1.5\<close> times the sum, over the
  units of the buffer, of \<open>coverage * intensity\<close>, where
  \<open>coverage = smoothstep(0.03, 0.03 - 0.03 * 0.9, distance(uv, position))\<close> and
  \<open>intensity = smoothstep(0, 0.8, activation)\<close>; a unit is left out exactly when
  \<open>intensity \<le> 0.01\<close>. Coverage is not part of the test.
\<close>

theorem glow_fs_main_accumulates:
  "glow_fs_main u columns fc =
     (let uv = glow_uv u fc;
          total = (\<Sum>j<unat (arrayLength columns).
                     (let coverage = smoothstep 0.03 (0.03 - 0.03 * 0.9) (distance2 uv (pos (columns ! j)));
                          intensity = smoothstep 0 0.8 (state (columns ! j))
                      in if intensity \<le> 0.01 then 0 else coverage * intensity))
      in (0.1 * total * 1.5, 0.7 * total * 1.5, 0.02 + 0.9 * total * 1.5, 1))"
proof -
  have "\<And>col. glow_amount (glow_uv u fc) col =
          (let coverage = smoothstep 0.03 (0.03 - 0.03 * 0.9) (distance2 (glow_uv u fc) (pos col));
               intensity = smoothstep 0 0.8 (state col)
           in if intensity \<le> 0.01 then 0 else coverage * intensity)"
    by (simp add: glow_amount_def circle_def Let_def)
  then show ?thesis
    unfolding glow_fs_main_closed_form by (simp add: Let_def)
qed

lemma glow_loop_spec_stop: "\<not> i < n \<Longrightarrow> glow_loop_spec uv cols n i acc = acc"
  by (subst glow_loop_spec.simps) simp

lemma glow_loop_spec_step:
  "i < n \<Longrightarrow>
   glow_loop_spec uv cols n i acc =
     glow_loop_spec uv cols n (i + 1)
       (let coverage = smoothstep 0.03 (0.03 - 0.03 * 0.9) (distance2 uv (pos (load_column cols i)));
            intensity = smoothstep 0 0.8 (state (load_column cols i))
        in if coverage * intensity < 0.01 then acc
           else add3 acc (scale3 (scale3 (0.1, 0.7, 0.9) (coverage * intensity)) 1.5))"
  by (subst glow_loop_spec.simps) (simp add: Let_def)

lemma distance2_on_axis: "distance2 (0, 0) (d, 0) = \<bar>d\<bar>"
  by (simp add: distance2_def length2_def)

text \<open>
  C2, as stated, fails: a fully active unit at distance \<open>0.02865\<close> from the fragment has
  \<open>coverage * intensity = 0.00725 < 0.01\<close>, the code adds its glow, and the renderer that
  skips on \<open>coverage * intensity < 0.01\<close> returns the background.
\<close>

theorem glow_skip_test_counterexample:
  "circle (glow_uv \<lparr>Uniforms.time = 0, resolution_x = 800, resolution_y = 600, num_columns = 1\<rparr>
             (400, 300, 0, 1)) (0.02865, 0) 0.03 (0.03 * 0.9) * smoothstep 0 0.8 1 = 0.00725 \<and>
   glow_fs_main \<lparr>Uniforms.time = 0, resolution_x = 800, resolution_y = 600, num_columns = 1\<rparr>
     [\<lparr>pos = (0.02865, 0), state = 1\<rparr>] (400, 300, 0, 1)
     = (0.0010875, 0.0076125, 0.0297875, 1) \<and>
   glow_fs_main_spec \<lparr>Uniforms.time = 0, resolution_x = 800, resolution_y = 600, num_columns = 1\<rparr>
     [\<lparr>pos = (0.02865, 0), state = 1\<rparr>] (400, 300, 0, 1)
     = (0, 0, 0.02, 1)"
  by (simp add: glow_fs_main_def glow_fs_main_spec_def glow_uv_def arrayLength_def
        glow_loop_step glow_loop_stop glow_loop_spec_step glow_loop_spec_stop
        glow_amount_def load_column_def circle_def distance2_on_axis
        smoothstep_def clamp_def Let_def)

subsection \<open>The iteration bound\<close>

text \<open>
  C3, as stated, fails: with the uniform slot at \<open>0\<close> and one fully active unit in the
  buffer under the fragment, the code composites that unit; iterating as many units as the
  slot says returns the background.
\<close>

theorem glow_slot_counterexample:
  "num_columns \<lparr>Uniforms.time = 0, resolution_x = 800, resolution_y = 600, num_columns = 0\<rparr> = 0 \<and>
   glow_fs_main \<lparr>Uniforms.time = 0, resolution_x = 800, resolution_y = 600, num_columns = 0\<rparr>
     [\<lparr>pos = (0, 0), state = 1\<rparr>] (400, 300, 0, 1) = (0.15, 1.05, 1.37, 1) \<and>
   glow_fs_main_slot \<lparr>Uniforms.time = 0, resolution_x = 800, resolution_y = 600, num_columns = 0\<rparr>
     [\<lparr>pos = (0, 0), state = 1\<rparr>] (400, 300, 0, 1) = (0, 0, 0.02, 1)"
  by (simp add: glow_fs_main_def glow_fs_main_slot_def glow_uv_def arrayLength_def
        glow_loop_step glow_loop_stop
        glow_amount_def load_column_def circle_def distance2_on_axis
        smoothstep_def clamp_def Let_def)

text \<open>
  C3, as amended. The fragment stage takes its iteration bound from the live length of the
  units buffer: whatever value \<open>n\<close> the uniform slot holds, the output is the same, and it is
  the output of the loop run up to \<open>arrayLength columns\<close>.
\<close>

theorem glow_fs_main_ignores_slot:
  "glow_fs_main (u\<lparr>num_columns := n\<rparr>) columns fc = glow_fs_main u columns fc \<and>
   glow_fs_main (u\<lparr>num_columns := n\<rparr>) columns fc
     = glow_fs_main_slot (u\<lparr>num_columns := arrayLength columns\<rparr>) columns fc"
  by (simp add: glow_fs_main_def glow_fs_main_slot_def glow_uv_def Let_def)


section \<open>Properties of the Organic-Noise renderer\<close>

lemma mix3_at_one: "mix3 a b 1 = b"
  by (cases a, cases b) (simp add: mix_def)

lemma mix3_at_zero: "mix3 a b 0 = a"
  by (cases a, cases b) (simp add: mix_def)

text \<open>
  C6. The parameters are linear in the awareness level and the bright-hue weight is its
  square. At awareness \<open>0\<close>: speed \<open>2.0\<close>, zoom \<open>5.0\<close>, distortion \<open>0.8\<close>, weight \<open>0\<close>, and
  the output colour is the noise colour alone. At awareness \<open>1\<close>: speed \<open>0.1\<close>, zoom \<open>2.0\<close>,
  distortion \<open>0.0\<close>, weight \<open>1\<close>, and the output is the bright hue \<open>(0.8, 0.9, 1.0)\<close>.
\<close>

theorem noise_parameter_endpoints:
  "time_speed 0 = 2.0 \<and> zoom 0 = 5.0 \<and> distortion_amount 0 = 0.8 \<and> bright_weight 0 = 0 \<and>
   time_speed 1 = 0.1 \<and> zoom 1 = 2.0 \<and> distortion_amount 1 = 0.0 \<and> bright_weight 1 = 1 \<and>
   time_speed a = 2.0 + (0.1 - 2.0) * a \<and> zoom a = 5.0 + (2.0 - 5.0) * a \<and>
   distortion_amount a = 0.8 + (0.0 - 0.8) * a \<and> bright_weight a = a\<^sup>2 \<and>
   rgb (noise_fs_main (u\<lparr>awareness_level := 0\<rparr>) fc)
     = noise_base_color (u\<lparr>awareness_level := 0\<rparr>) fc \<and>
   noise_fs_main (u\<lparr>awareness_level := 1\<rparr>) fc = (0.8, 0.9, 1.0, 1)"
proof -
  have params: "time_speed 0 = 2.0 \<and> zoom 0 = 5.0 \<and> distortion_amount 0 = 0.8 \<and> bright_weight 0 = 0 \<and>
   time_speed 1 = 0.1 \<and> zoom 1 = 2.0 \<and> distortion_amount 1 = 0.0 \<and> bright_weight 1 = 1"
    by (simp add: time_speed_def zoom_def distortion_amount_def bright_weight_def mix_def)
  have lin: "time_speed a = 2.0 + (0.1 - 2.0) * a \<and> zoom a = 5.0 + (2.0 - 5.0) * a \<and>
   distortion_amount a = 0.8 + (0.0 - 0.8) * a \<and> bright_weight a = a\<^sup>2"
    unfolding time_speed_def zoom_def distortion_amount_def bright_weight_def mix_def
      power2_eq_square
    by (intro conjI) (simp_all add: right_diff_distrib)
  have zero: "rgb (noise_fs_main (u\<lparr>awareness_level := 0\<rparr>) fc)
     = noise_base_color (u\<lparr>awareness_level := 0\<rparr>) fc"
    by (simp add: noise_fs_main_def Let_def bright_weight_def mix3_at_zero)
  have one: "noise_fs_main (u\<lparr>awareness_level := 1\<rparr>) fc = (0.8, 0.9, 1.0, 1)"
    by (simp add: noise_fs_main_def Let_def bright_weight_def mix3_at_one)
  show ?thesis using params lin zero one by blast
qed

end
